theory Spec2Isabelle
  imports Main "HOL-Library.Word"
begin

section \<open>Password-reset handlers (backend/account/reset-token-api.go)\<close>

subsection \<open>Data\<close>

text \<open>A Go \<open>error\<close> value is represented by its message.\<close>

type_synonym error = string

text \<open>
  \<open>ValidKey\<close> is declared in the source file. \<open>User\<close> and \<open>ResetToken\<close> are declared
  elsewhere in the package; the records below carry the fields the handlers read or write
  (\<open>user.Id\<close>, \<open>user.Email\<close>, \<open>user.Password\<close>, \<open>resetToken.UserId\<close>,
  \<open>resetToken.Key\<close>, \<open>resetToken.State\<close>), and \<open>Expiration\<close> stands for the time
  horizon the specification gives every token.
\<close>

record ValidKey =
  vkUserId :: "64 word"
  vkKey :: string

record User =
  Id :: "64 word"
  Email :: string
  Password :: string

datatype ResetTokenState = ResetTokenActive | ResetTokenInactive

record ResetToken =
  UserId :: "64 word"
  Key :: string
  State :: ResetTokenState
  Expiration :: nat

record Message =
  From :: string
  To :: "string list"
  Subject :: string
  Body :: string

record ResetPasswordForm =
  rpEmail :: string

record ValidateKeyForm =
  vfKey :: string

record ChangePasswordForm =
  cpPassword :: string
  cpPasswordAgain :: string
  cpValidKey :: ValidKey

subsection \<open>Responses\<close>

text \<open>
  The helpers \<open>ctx.OK\<close>, \<open>ctx.BadRequest\<close> and \<open>ctx.InternalServerError\<close> belong to the
  imported package \<open>ctx\<close>. A response is the status code and the payload handed to the
  helper; the codes are those of the endpoint surface (200, 400, 500).
\<close>

datatype payload = Text string | ValidKeyBody ValidKey | UserBody User

record response =
  code :: nat
  body :: payload

definition OK :: "payload \<Rightarrow> response" where
  "OK p = \<lparr>code = 200, body = p\<rparr>"

definition BadRequest :: "string \<Rightarrow> response" where
  "BadRequest msg = \<lparr>code = 400, body = Text msg\<rparr>"

definition InternalServerError :: "string \<Rightarrow> response" where
  "InternalServerError msg = \<lparr>code = 500, body = Text msg\<rparr>"

subsection \<open>Collaborators\<close>

text \<open>
  The user service, the reset-token service, the password encoder, the mail account, the
  email regular expression and \<open>ResetToken.Valid\<close> are not part of the two source files.
  The handlers are therefore parameterised by a record of these operations over an
  arbitrary store \<open>'s\<close>: lookups read the store, updates return the new store together
  with the error (if any) that the Go call returns.
\<close>

record 's services =
  emailMatch :: "string \<Rightarrow> bool"
  userGetByEmail :: "'s \<Rightarrow> string \<Rightarrow> error + User"
  userGetById :: "'s \<Rightarrow> 64 word \<Rightarrow> error + User"
  userUpdate :: "'s \<Rightarrow> User \<Rightarrow> error option \<times> 's"
  passwordEncode :: "string \<Rightarrow> error + string"
  tokenCreate :: "'s \<Rightarrow> 64 word \<Rightarrow> (error + ResetToken) \<times> 's"
  tokenGetByKey :: "'s \<Rightarrow> string \<Rightarrow> error + ResetToken"
  tokenUpdate :: "'s \<Rightarrow> ResetToken \<Rightarrow> error option \<times> 's"
  tokenValid :: "'s \<Rightarrow> ResetToken \<Rightarrow> bool"
  mailSend :: "'s \<Rightarrow> Message \<Rightarrow> error option \<times> 's"

text \<open>
  Every call a handler makes on a collaborator, every \<open>log.Errorf\<close> and every goroutine
  it starts is appended to a trace, in program order.
\<close>

datatype event =
    UserGetByEmail string
  | UserGetById "64 word"
  | PasswordEncode
  | UserUpdate User
  | TokenCreate "64 word"
  | TokenGetByKey string
  | TokenUpdate ResetToken
  | MailSend Message
  | LogErrorf string
  | Go_sendResetPasswordEmail User

record 's world =
  store :: 's
  trace :: "event list"

definition emit :: "event \<Rightarrow> 's world \<Rightarrow> 's world" where
  "emit e w = w\<lparr>trace := trace w @ [e]\<rparr>"

subsection \<open>sendResetPasswordEmail\<close>

definition sendResetPasswordEmail :: "'s services \<Rightarrow> User \<Rightarrow> 's world \<Rightarrow> 's world" where
  "sendResetPasswordEmail sv user w =
     (let w1 = emit (TokenCreate (Id user)) w;
          (r, s1) = tokenCreate sv (store w1) (Id user);
          w2 = w1\<lparr>store := s1\<rparr>
      in case r of
           Inl err \<Rightarrow> emit (LogErrorf (''Unable to create a new reset token: '' @ err)) w2
         | Inr resetToken \<Rightarrow>
             (let msg = \<lparr>From = ''Go-SPA'', To = [Email user], Subject = ''Reset Password'',
                         Body = ''Access this link: '' @
                                ''http://localhost:3000/#/reset-password/step2/'' @
                                Key resetToken\<rparr>;
                  w3 = emit (MailSend msg) w2;
                  (merr, s2) = mailSend sv (store w3) msg;
                  w4 = w3\<lparr>store := s2\<rparr>
              in case merr of
                   Some err \<Rightarrow> emit (LogErrorf (''Unable to send email: '' @ err)) w4
                 | None \<Rightarrow> w4))"

subsection \<open>ResetPasswordResource.POST\<close>

text \<open>
  The request body is given by the result of decoding it: \<open>Inl err\<close> when
  \<open>json.NewDecoder(req.Body).Decode\<close> fails, \<open>Inr form\<close> otherwise.
\<close>

definition ResetPasswordResource_POST ::
  "'s services \<Rightarrow> error + ResetPasswordForm \<Rightarrow> 's world \<Rightarrow> response \<times> 's world" where
  "ResetPasswordResource_POST sv decoded w =
     (case decoded of
        Inl err \<Rightarrow> (BadRequest (''Could not query user: '' @ err), w)
      | Inr form \<Rightarrow>
          if \<not> emailMatch sv (rpEmail form) then (BadRequest ''Invalid email address'', w)
          else
            (let w1 = emit (UserGetByEmail (rpEmail form)) w
             in case userGetByEmail sv (store w1) (rpEmail form) of
                  Inl err \<Rightarrow> (BadRequest ''User not found'', w1)
                | Inr user \<Rightarrow> (OK (Text ''Email sent''), emit (Go_sendResetPasswordEmail user) w1)))"

subsection \<open>ValidateKeyResource.POST\<close>

definition ValidateKeyResource_POST ::
  "'s services \<Rightarrow> error + ValidateKeyForm \<Rightarrow> 's world \<Rightarrow> response \<times> 's world" where
  "ValidateKeyResource_POST sv decoded w =
     (case decoded of
        Inl err \<Rightarrow> (BadRequest ''Unable to validate key'', w)
      | Inr form \<Rightarrow>
          (let w1 = emit (TokenGetByKey (vfKey form)) w
           in case tokenGetByKey sv (store w1) (vfKey form) of
                Inl err \<Rightarrow> (BadRequest ''Invalid Key'', w1)
              | Inr resetToken \<Rightarrow>
                  if \<not> tokenValid sv (store w1) resetToken then (BadRequest ''Invalid Key'', w1)
                  else (OK (ValidKeyBody \<lparr>vkUserId = UserId resetToken, vkKey = vfKey form\<rparr>), w1)))"

subsection \<open>CompleteResource.POST\<close>

definition CompleteResource_POST ::
  "'s services \<Rightarrow> error + ChangePasswordForm \<Rightarrow> 's world \<Rightarrow> response \<times> 's world" where
  "CompleteResource_POST sv decoded w =
     (case decoded of
        Inl err \<Rightarrow> (BadRequest ''Unable to change the password'', w)
      | Inr form \<Rightarrow>
          if cpPassword form \<noteq> cpPasswordAgain form then (BadRequest ''Passwords mismatch'', w)
          else
            (let w1 = emit (TokenGetByKey (vkKey (cpValidKey form))) w
             in case tokenGetByKey sv (store w1) (vkKey (cpValidKey form)) of
                  Inl err \<Rightarrow> (BadRequest ''Invalid Key'', w1)
                | Inr resetToken \<Rightarrow>
                    if \<not> tokenValid sv (store w1) resetToken then (BadRequest ''Invalid Key'', w1)
                    else
                      (let w2 = emit (UserGetById (UserId resetToken)) w1
                       in case userGetById sv (store w2) (UserId resetToken) of
                            Inl err \<Rightarrow> (InternalServerError ''User not found'', w2)
                          | Inr user0 \<Rightarrow>
                              (let w3 = emit PasswordEncode w2
                               in case passwordEncode sv (cpPassword form) of
                                    Inl err \<Rightarrow>
                                      (InternalServerError ''Could not change user password'', w3)
                                  | Inr enc \<Rightarrow>
                                      (let user = user0\<lparr>Password := enc\<rparr>;
                                           w4 = emit (UserUpdate user) w3;
                                           (uerr, s1) = userUpdate sv (store w4) user;
                                           w5 = w4\<lparr>store := s1\<rparr>
                                       in case uerr of
                                            Some err \<Rightarrow>
                                              (InternalServerError
                                                 ''Could not change user password'', w5)
                                          | None \<Rightarrow>
                                              (let tok = resetToken\<lparr>State := ResetTokenInactive\<rparr>;
                                                   w6 = emit (TokenUpdate tok) w5;
                                                   (terr, s2) = tokenUpdate sv (store w6) tok;
                                                   w7 = w6\<lparr>store := s2\<rparr>;
                                                   w8 = (case terr of
                                                           Some err \<Rightarrow>
                                                             emit (LogErrorf
                                                               (''Unable to invalidate token: ''
                                                                  @ err)) w7
                                                         | None \<Rightarrow> w7)
                                               in (OK (UserBody user), w8)))))))"

subsection \<open>An in-memory instance of the collaborators\<close>

text \<open>
  Modelled from the spec: the user service, the reset-token service and \<open>ResetToken.Valid\<close>
  are missing from the source files. The instance below keeps users and tokens in lists;
  \<open>Valid\<close> holds iff the state is \<open>Active\<close> and the current time is before the expiry
  horizon; \<open>GetByKey\<close> is a point lookup that fails when no record has the key; \<open>Update\<close>
  persists the record with the same key. The flag \<open>tokenUpdateFails\<close> makes the token
  store refuse updates, and \<open>hasAt\<close> stands in for the email regular expression, whose
  text is not in the source files.
\<close>

record mem =
  users :: "User list"
  tokens :: "ResetToken list"
  now :: nat
  tokenUpdateFails :: bool

definition hasAt :: "string \<Rightarrow> bool" where
  "hasAt s = (CHR ''@'' \<in> set s)"

definition mem_userGetByEmail :: "mem \<Rightarrow> string \<Rightarrow> error + User" where
  "mem_userGetByEmail s e =
     (case find (\<lambda>u. Email u = e) (users s) of
        None \<Rightarrow> Inl ''no rows in result set'' | Some u \<Rightarrow> Inr u)"

definition mem_userGetById :: "mem \<Rightarrow> 64 word \<Rightarrow> error + User" where
  "mem_userGetById s i =
     (case find (\<lambda>u. Id u = i) (users s) of
        None \<Rightarrow> Inl ''no rows in result set'' | Some u \<Rightarrow> Inr u)"

definition mem_userUpdate :: "mem \<Rightarrow> User \<Rightarrow> error option \<times> mem" where
  "mem_userUpdate s u =
     (None, s\<lparr>users := map (\<lambda>x. if Id x = Id u then u else x) (users s)\<rparr>)"

definition mem_tokenCreate :: "mem \<Rightarrow> 64 word \<Rightarrow> (error + ResetToken) \<times> mem" where
  "mem_tokenCreate s uid =
     (let t = \<lparr>UserId = uid, Key = replicate (Suc (length (tokens s))) CHR ''k'',
               State = ResetTokenActive, Expiration = now s + 86400\<rparr>
      in (Inr t, s\<lparr>tokens := tokens s @ [t]\<rparr>))"

definition mem_tokenGetByKey :: "mem \<Rightarrow> string \<Rightarrow> error + ResetToken" where
  "mem_tokenGetByKey s k =
     (case find (\<lambda>t. Key t = k) (tokens s) of
        None \<Rightarrow> Inl ''no rows in result set'' | Some t \<Rightarrow> Inr t)"

definition mem_tokenUpdate :: "mem \<Rightarrow> ResetToken \<Rightarrow> error option \<times> mem" where
  "mem_tokenUpdate s t =
     (if tokenUpdateFails s then (Some ''connection refused'', s)
      else (None, s\<lparr>tokens := map (\<lambda>x. if Key x = Key t then t else x) (tokens s)\<rparr>))"

definition mem_tokenValid :: "mem \<Rightarrow> ResetToken \<Rightarrow> bool" where
  "mem_tokenValid s t = (State t = ResetTokenActive \<and> now s < Expiration t)"

definition mem_services :: "mem services" where
  "mem_services =
     \<lparr>emailMatch = hasAt,
      userGetByEmail = mem_userGetByEmail,
      userGetById = mem_userGetById,
      userUpdate = mem_userUpdate,
      passwordEncode = (\<lambda>p. Inr (''hash:'' @ p)),
      tokenCreate = mem_tokenCreate,
      tokenGetByKey = mem_tokenGetByKey,
      tokenUpdate = mem_tokenUpdate,
      tokenValid = mem_tokenValid,
      mailSend = (\<lambda>s m. (None, s))\<rparr>"

text \<open>A store with one user, holding one active token that expires at time 100.\<close>

definition alice :: User where
  "alice = \<lparr>Id = 1, Email = ''a@x.com'', Password = ''hash:old''\<rparr>"

definition tok1 :: ResetToken where
  "tok1 = \<lparr>UserId = 1, Key = ''k1'', State = ResetTokenActive, Expiration = 100\<rparr>"

definition mem0 :: mem where
  "mem0 = \<lparr>users = [alice], tokens = [tok1], now = 10, tokenUpdateFails = False\<rparr>"

definition world0 :: "mem world" where
  "world0 = \<lparr>store = mem0, trace = []\<rparr>"

definition world_failing :: "mem world" where
  "world_failing = \<lparr>store = mem0\<lparr>tokenUpdateFails := True\<rparr>, trace = []\<rparr>"

section \<open>Endpoint dispatch (backend/context/context.go)\<close>

subsection \<open>Data\<close>

type_synonym bytes = "8 word list"

text \<open>
  A parsed credential (\<open>jwt.Token\<close>) and an inbound request. \<open>Header\<close> is the list of
  header fields; \<open>Get\<close> returns the empty string for a field that is absent.
\<close>

record jwtToken =
  Raw :: string
  Valid :: bool

record request =
  Method :: string
  URLPath :: string
  Header :: "(string \<times> string) list"

definition Get :: "(string \<times> string) list \<Rightarrow> string \<Rightarrow> string" where
  "Get h k = (case map_of h k of None \<Rightarrow> [] | Some v \<Rightarrow> v)"

text \<open>
  A response writer is the list of responses written so far, each a status code with its
  body. \<open>http.Error\<close> writes one.
\<close>

type_synonym ResponseWriter = "(nat \<times> string) list"

definition http_Error :: "ResponseWriter \<Rightarrow> string \<Rightarrow> nat \<Rightarrow> ResponseWriter" where
  "http_Error rw msg status = rw @ [(status, msg)]"

definition StatusMethodNotAllowed :: nat where
  "StatusMethodNotAllowed = 405"

definition StatusBadRequest :: nat where
  "StatusBadRequest = 400"

text \<open>
  The Go \<open>Context\<close> struct holds \<open>Router\<close>, \<open>Vars\<close>, \<open>T\<close>, \<open>Token\<close> and \<open>middleware\<close>.
  Handlers take the context and the router holds handlers, so the record below carries the
  fields a handler reads (\<open>Vars\<close>, \<open>T\<close>, \<open>Token\<close>) and the router is kept beside it in
  \<open>Server\<close>. \<open>T\<close> is the translation function \<open>i18n.MustTfunc\<close> returns, represented by
  the two languages it was built from; \<open>None\<close> is the nil function of a fresh context.
\<close>

record 'v Context =
  Vars :: 'v
  T :: "(string \<times> string) option"
  Token :: "jwtToken option"

type_synonym 'v ContextHandler =
  "'v Context \<Rightarrow> ResponseWriter \<Rightarrow> request \<Rightarrow> ResponseWriter \<times> error option"

text \<open>\<open>MethodHandlers\<close> is a Go map; the association list is read with \<open>map_of\<close>.\<close>

type_synonym 'v MethodHandlers = "(string \<times> 'v ContextHandler) list"

fun IsAllowed :: "'v MethodHandlers \<Rightarrow> request \<Rightarrow> bool" where
  "IsAllowed [] req = False"
| "IsAllowed ((method, h) # handlers) req =
     (if Method req = method then True else IsAllowed handlers req)"

record 'v Endpoint =
  Public :: bool
  Path :: string
  Handlers :: "'v MethodHandlers"

text \<open>
  What \<open>Context.AddEndpoint\<close> registers for a path: the handler of \<open>newContextHandler\<close>
  itself (\<open>Router.HandleFunc\<close>), or the chain
  \<open>negroni.New(HandlerFunc(middleware.HandlerWithNext), Wrap(httpHandler))\<close>
  (\<open>Router.Handle\<close>).
\<close>

datatype 'v Route = HandleFunc "'v Endpoint" | Handle_negroni "'v Endpoint"

record 'v Server =
  PathPrefix :: string
  Router :: "(string \<times> 'v Route) list"
  ctx :: "'v Context"

text \<open>The package-level variables.\<close>

record 'v globals =
  verifyKey :: bytes
  signKey :: bytes
  endpoints :: "'v Endpoint list"

subsection \<open>Libraries\<close>

text \<open>
  \<open>ioutil.ReadFile\<close>, the JWT middleware's \<open>HandlerWithNext\<close> and \<open>jwt.ParseFromRequest\<close>
  are library code and are parameters of the model. \<open>ReadFile\<close> returns the data with the
  error, as the Go call does. \<open>HandlerWithNext\<close> is given the verification key its key
  getter returns and the request; \<open>Some r\<close> means that it wrote the response \<open>r\<close> and did not
  call the next handler, \<open>None\<close> that it called the next handler.
\<close>

record libs =
  ReadFile :: "string \<Rightarrow> bytes \<times> error option"
  HandlerWithNext :: "bytes \<Rightarrow> request \<Rightarrow> (nat \<times> string) option"
  ParseFromRequest :: "bytes \<Rightarrow> request \<Rightarrow> jwtToken option \<times> error option"

subsection \<open>AddEndpoint, LoadSecureKeys, New, Configure\<close>

definition AddEndpoint :: "'v Endpoint \<Rightarrow> 'v globals \<Rightarrow> 'v globals" where
  "AddEndpoint endpoint g = g\<lparr>endpoints := endpoints g @ [endpoint]\<rparr>"

definition LoadSecureKeys ::
  "libs \<Rightarrow> string \<Rightarrow> string \<Rightarrow> 'v globals \<Rightarrow> error option \<times> 'v globals" where
  "LoadSecureKeys lib privateKeyPath publicKeyPath g =
     (let (d1, err1) = ReadFile lib privateKeyPath;
          g1 = g\<lparr>signKey := d1\<rparr>
      in case err1 of
           Some e \<Rightarrow> (Some ''Error reading private key'', g1)
         | None \<Rightarrow>
             (let (d2, err2) = ReadFile lib publicKeyPath;
                  g2 = g1\<lparr>verifyKey := d2\<rparr>
              in case err2 of
                   Some e \<Rightarrow> (Some ''Error reading public key'', g2)
                 | None \<Rightarrow> (None, g2)))"

definition New :: "string \<Rightarrow> 'v \<Rightarrow> 'v Server \<times> error option" where
  "New prefix vars =
     (\<lparr>PathPrefix = prefix, Router = [],
       ctx = \<lparr>Vars = vars, T = None, Token = None\<rparr>\<rparr>, None)"

definition Context_AddEndpoint :: "'v Server \<Rightarrow> 'v Endpoint \<Rightarrow> 'v Server" where
  "Context_AddEndpoint c endpoint =
     (if Public endpoint
      then c\<lparr>Router := Router c @ [(Path endpoint, HandleFunc endpoint)]\<rparr>
      else c\<lparr>Router := Router c @ [(Path endpoint, Handle_negroni endpoint)]\<rparr>)"

fun AddEndpoints :: "'v Server \<Rightarrow> 'v Endpoint list \<Rightarrow> 'v Server" where
  "AddEndpoints c [] = c"
| "AddEndpoints c (endpoint # rest) = AddEndpoints (Context_AddEndpoint c endpoint) rest"

text \<open>
  \<open>Configure\<close> calls \<open>LoadSecureKeys\<close> as a statement: the error it returns is dropped and
  only its effect on the package variables remains.
\<close>

definition Configure ::
  "libs \<Rightarrow> 'v globals \<Rightarrow> string \<Rightarrow> string \<Rightarrow> string \<Rightarrow> 'v \<Rightarrow>
     error option \<times> 'v globals \<times> 'v Server option" where
  "Configure lib g privKey pubKey pathPrefix vars =
     (let (dropped, g1) = LoadSecureKeys lib privKey pubKey g;
          (c, err) = New pathPrefix vars
      in case err of
           Some e \<Rightarrow> (Some e, g1, None)
         | None \<Rightarrow> (None, g1, Some (AddEndpoints c (endpoints g1))))"

subsection \<open>newContextHandler and the registered routes\<close>

text \<open>
  Serving one request changes the context (\<open>Token\<close>, \<open>T\<close>) and the response writer. The
  steps taken are recorded in program order: the middleware of a chained route, the
  method check, the credential parse of \<open>newContextHandler\<close>, the locale update and the
  call of the matched handler with the token it finds in the context.
\<close>

datatype step =
    Middleware_HandlerWithNext
  | MethodCheck
  | Jwt_ParseFromRequest
  | UpdateT
  | Invoke string "jwtToken option"

record 'v serving =
  sctx :: "'v Context"
  rw :: ResponseWriter
  steps :: "step list"
  panicked :: bool

definition mark :: "step \<Rightarrow> 'v serving \<Rightarrow> 'v serving" where
  "mark e st = st\<lparr>steps := steps st @ [e]\<rparr>"

definition updateT :: "request \<Rightarrow> 'v serving \<Rightarrow> 'v serving" where
  "updateT req st =
     (let acceptLang = Get (Header req) ''Accept-Language'';
          defaultLang = ''en-US''
      in (mark UpdateT st)\<lparr>sctx := (sctx st)\<lparr>T := Some (acceptLang, defaultLang)\<rparr>\<rparr>)"

text \<open>
  Calling the nil function that a Go map returns for a missing key panics; the branch is
  kept, although \<open>IsAllowed\<close> excludes it.
\<close>

definition newContextHandler ::
  "libs \<Rightarrow> bytes \<Rightarrow> 'v Endpoint \<Rightarrow> request \<Rightarrow> 'v serving \<Rightarrow> 'v serving" where
  "newContextHandler lib vk endpoint req st =
     (let st0 = mark MethodCheck st
      in if \<not> IsAllowed (Handlers endpoint) req
         then st0\<lparr>rw := http_Error (rw st0) ''Method not allowed'' StatusMethodNotAllowed\<rparr>
         else
           (let st1 = (if \<not> Public endpoint
                       then (mark Jwt_ParseFromRequest st0)
                              \<lparr>sctx := (sctx st0)\<lparr>Token := fst (ParseFromRequest lib vk req)\<rparr>\<rparr>
                       else st0);
                st2 = updateT req st1
            in case map_of (Handlers endpoint) (Method req) of
                 None \<Rightarrow> st2\<lparr>panicked := True\<rparr>
               | Some h \<Rightarrow>
                   (let st3 = mark (Invoke (Method req) (Token (sctx st2))) st2;
                        (rw', err) = h (sctx st3) (rw st3) req;
                        st4 = st3\<lparr>rw := rw'\<rparr>
                    in case err of
                         Some e \<Rightarrow> st4\<lparr>rw := http_Error (rw st4) e StatusBadRequest\<rparr>
                       | None \<Rightarrow> st4)))"

definition ServeRoute ::
  "libs \<Rightarrow> bytes \<Rightarrow> 'v Route \<Rightarrow> request \<Rightarrow> 'v serving \<Rightarrow> 'v serving" where
  "ServeRoute lib vk route req st =
     (case route of
        HandleFunc endpoint \<Rightarrow> newContextHandler lib vk endpoint req st
      | Handle_negroni endpoint \<Rightarrow>
          (let st1 = mark Middleware_HandlerWithNext st
           in case HandlerWithNext lib vk req of
                Some r \<Rightarrow> st1\<lparr>rw := rw st1 @ [r]\<rparr>
              | None \<Rightarrow> newContextHandler lib vk endpoint req st1))"

text \<open>The route that \<open>Context.AddEndpoint\<close> registers for an endpoint.\<close>

definition route_of :: "'v Endpoint \<Rightarrow> 'v Route" where
  "route_of endpoint = (if Public endpoint then HandleFunc endpoint else Handle_negroni endpoint)"

subsection \<open>Concrete libraries, endpoints and requests\<close>

text \<open>
  Two instances of the library parameters. Both read every file but \<open>missing.pem\<close> and
  parse the credential \<open>Bearer good\<close> only. \<open>lib_strict\<close> follows the middleware as
  \<open>New\<close> builds it, with the key getter as its only option: a request without a valid
  credential is answered with status 401 and not passed on. \<open>lib_open\<close> passes every
  request on.
\<close>

definition readFile0 :: "string \<Rightarrow> bytes \<times> error option" where
  "readFile0 p =
     (if p = ''missing.pem'' then ([], Some ''open missing.pem: no such file or directory'')
      else ([1, 2, 3], None))"

definition parse0 :: "bytes \<Rightarrow> request \<Rightarrow> jwtToken option \<times> error option" where
  "parse0 vk req =
     (if Get (Header req) ''Authorization'' = ''Bearer good''
      then (Some \<lparr>Raw = ''good'', Valid = True\<rparr>, None)
      else (None, Some ''no token present in request''))"

definition lib_strict :: libs where
  "lib_strict =
     \<lparr>ReadFile = readFile0,
      HandlerWithNext = (\<lambda>vk req.
         if Get (Header req) ''Authorization'' = ''Bearer good'' then None
         else Some (401, ''Required authorization token not found'')),
      ParseFromRequest = parse0\<rparr>"

definition lib_open :: libs where
  "lib_open =
     \<lparr>ReadFile = readFile0, HandlerWithNext = (\<lambda>vk req. None), ParseFromRequest = parse0\<rparr>"

text \<open>A handler that answers 200 and reports whether it saw an identity.\<close>

definition whoami :: "unit ContextHandler" where
  "whoami c w req =
     (w @ [(200, case Token c of None \<Rightarrow> ''anonymous'' | Some t \<Rightarrow> Raw t)], None)"

definition protected_ep :: "unit Endpoint" where
  "protected_ep = \<lparr>Public = False, Path = ''/account/me'', Handlers = [(''GET'', whoami)]\<rparr>"

definition public_ep :: "unit Endpoint" where
  "public_ep = \<lparr>Public = True, Path = ''/account/ping'', Handlers = [(''GET'', whoami)]\<rparr>"

definition get_anonymous :: request where
  "get_anonymous = \<lparr>Method = ''GET'', URLPath = ''/account/me'', Header = []\<rparr>"

definition delete_anonymous :: request where
  "delete_anonymous = \<lparr>Method = ''DELETE'', URLPath = ''/account/me'', Header = []\<rparr>"

definition serving0 :: "unit serving" where
  "serving0 = \<lparr>sctx = \<lparr>Vars = (), T = None, Token = None\<rparr>, rw = [], steps = [],
               panicked = False\<rparr>"

definition globals0 :: "unit globals" where
  "globals0 = \<lparr>verifyKey = [], signKey = [], endpoints = [public_ep, protected_ep]\<rparr>"

section \<open>Properties of the password-reset handlers\<close>

lemma store_emit: "store (emit e w) = store w"
  by (simp add: emit_def)

lemma trace_emit: "trace (emit e w) = trace w @ [e]"
  by (simp add: emit_def)

lemmas mem_defs =
  mem_services_def hasAt_def mem_userGetByEmail_def mem_userGetById_def mem_userUpdate_def
  mem_tokenGetByKey_def mem_tokenUpdate_def mem_tokenValid_def
  world0_def world_failing_def mem0_def alice_def tok1_def

lemmas response_defs = OK_def BadRequest_def InternalServerError_def

text \<open>
  Claim C1, as amended. For a request whose email matches the regular expression, the
  response depends on the user lookup: when the lookup returns a user the response is
  200 \<open>Email sent\<close> and the goroutine that issues the token and sends the mail is started;
  when the lookup fails the response is 400 \<open>User not found\<close>, the store is unchanged and
  nothing but the lookup has happened, so no token is issued.
\<close>

theorem reset_password_by_lookup:
  assumes "emailMatch sv (rpEmail form)"
  shows "(\<forall>u. userGetByEmail sv (store w) (rpEmail form) = Inr u \<longrightarrow>
            ResetPasswordResource_POST sv (Inr form) w =
              (OK (Text ''Email sent''),
               w\<lparr>trace := trace w @ [UserGetByEmail (rpEmail form),
                                      Go_sendResetPasswordEmail u]\<rparr>))
       \<and> (\<forall>e. userGetByEmail sv (store w) (rpEmail form) = Inl e \<longrightarrow>
            ResetPasswordResource_POST sv (Inr form) w =
              (BadRequest ''User not found'',
               w\<lparr>trace := trace w @ [UserGetByEmail (rpEmail form)]\<rparr>))"
  using assms by (simp add: ResetPasswordResource_POST_def emit_def)

theorem reset_password_by_lookup_witness:
  "emailMatch mem_services ''a@x.com'' \<and> emailMatch mem_services ''b@x.com''
   \<and> userGetByEmail mem_services (store world0) ''a@x.com'' = Inr alice
   \<and> userGetByEmail mem_services (store world0) ''b@x.com'' = Inl ''no rows in result set''
   \<and> ResetPasswordResource_POST mem_services (Inr \<lparr>rpEmail = ''a@x.com''\<rparr>) world0 =
       (OK (Text ''Email sent''),
        world0\<lparr>trace := [UserGetByEmail ''a@x.com'', Go_sendResetPasswordEmail alice]\<rparr>)
   \<and> ResetPasswordResource_POST mem_services (Inr \<lparr>rpEmail = ''b@x.com''\<rparr>) world0 =
       (BadRequest ''User not found'', world0\<lparr>trace := [UserGetByEmail ''b@x.com'']\<rparr>)"
proof -
  have a: "emailMatch mem_services (rpEmail \<lparr>rpEmail = ''a@x.com''\<rparr>)"
    by (simp add: mem_defs)
  have b: "emailMatch mem_services (rpEmail \<lparr>rpEmail = ''b@x.com''\<rparr>)"
    by (simp add: mem_defs)
  have la: "userGetByEmail mem_services (store world0) ''a@x.com'' = Inr alice"
    by (simp add: mem_defs)
  have lb: "userGetByEmail mem_services (store world0) ''b@x.com'' = Inl ''no rows in result set''"
    by (simp add: mem_defs)
  have tr: "trace world0 = []"
    by (simp add: world0_def)
  show ?thesis
    using a b la lb tr
      reset_password_by_lookup [OF a, of world0]
      reset_password_by_lookup [OF b, of world0]
    by simp
qed

text \<open>
  Claim C1, as stated, fails: two requests with well-formed emails, one registered and one
  not, get different responses (200 \<open>Email sent\<close> against 400 \<open>User not found\<close>).
\<close>

theorem reset_password_reveals_registration:
  "fst (ResetPasswordResource_POST mem_services (Inr \<lparr>rpEmail = ''a@x.com''\<rparr>) world0)
     = \<lparr>code = 200, body = Text ''Email sent''\<rparr>
   \<and> fst (ResetPasswordResource_POST mem_services (Inr \<lparr>rpEmail = ''b@x.com''\<rparr>) world0)
     = \<lparr>code = 400, body = Text ''User not found''\<rparr>
   \<and> emailMatch mem_services ''a@x.com'' \<and> emailMatch mem_services ''b@x.com''"
  by (simp add: ResetPasswordResource_POST_def mem_defs emit_def response_defs)

text \<open>
  Claim C10. A reset-password request whose decoded email does not match the regular
  expression is answered 400 \<open>Invalid email address\<close>, and the world is returned as it
  was: no user lookup, no goroutine issuing a token or sending mail.
\<close>

theorem reset_password_invalid_email:
  "\<not> emailMatch sv (rpEmail form) \<Longrightarrow>
     ResetPasswordResource_POST sv (Inr form) w = (BadRequest ''Invalid email address'', w)
     \<and> code (BadRequest ''Invalid email address'') = 400"
  by (simp add: ResetPasswordResource_POST_def BadRequest_def)

theorem reset_password_invalid_email_witness:
  "\<not> emailMatch mem_services ''bx.com''
   \<and> ResetPasswordResource_POST mem_services (Inr \<lparr>rpEmail = ''bx.com''\<rparr>) world0
       = (\<lparr>code = 400, body = Text ''Invalid email address''\<rparr>, world0)"
proof -
  have h: "\<not> emailMatch mem_services (rpEmail \<lparr>rpEmail = ''bx.com''\<rparr>)"
    by (simp add: mem_defs)
  show ?thesis
    using h reset_password_invalid_email [OF h, of world0] by (simp add: BadRequest_def)
qed

text \<open>
  Claim C6. A complete request whose two passwords differ is answered 400
  \<open>Passwords mismatch\<close>, and the world is returned as it was: neither store is called, so
  the token bound to the key is what it was before.
\<close>

theorem complete_password_mismatch:
  "cpPassword form \<noteq> cpPasswordAgain form \<Longrightarrow>
     CompleteResource_POST sv (Inr form) w = (BadRequest ''Passwords mismatch'', w)
     \<and> code (BadRequest ''Passwords mismatch'') = 400"
  by (simp add: CompleteResource_POST_def BadRequest_def)

theorem complete_password_mismatch_witness:
  "CompleteResource_POST mem_services
     (Inr \<lparr>cpPassword = ''a'', cpPasswordAgain = ''b'',
           cpValidKey = \<lparr>vkUserId = 1, vkKey = ''k1''\<rparr>\<rparr>) world0
     = (\<lparr>code = 400, body = Text ''Passwords mismatch''\<rparr>, world0)
   \<and> tokenGetByKey mem_services (store world0) ''k1'' = Inr tok1
   \<and> State tok1 = ResetTokenActive"
proof -
  have h: "cpPassword \<lparr>cpPassword = ''a'', cpPasswordAgain = ''b'',
                       cpValidKey = \<lparr>vkUserId = 1, vkKey = ''k1''\<rparr>\<rparr>
           \<noteq> cpPasswordAgain \<lparr>cpPassword = ''a'', cpPasswordAgain = ''b'',
                       cpValidKey = \<lparr>vkUserId = 1, vkKey = ''k1''\<rparr>\<rparr>"
    by simp
  have k: "tokenGetByKey mem_services (store world0) ''k1'' = Inr tok1"
    by (simp add: mem_defs)
  show ?thesis
    using k complete_password_mismatch [OF h, of mem_services world0]
    by (simp add: BadRequest_def tok1_def)
qed

text \<open>
  Claim C7. For a validate-key request with key \<open>k\<close>: when the lookup by key fails, and
  when it returns a token that is not valid, the response is the same 400 \<open>Invalid Key\<close>
  and the resulting world is the same; when it returns a valid token the response is 200
  with the token's user identifier and the key \<open>k\<close> itself.
\<close>

theorem validate_key_result:
  "(\<forall>e. tokenGetByKey sv (store w) (vfKey form) = Inl e \<longrightarrow>
       ValidateKeyResource_POST sv (Inr form) w =
         (BadRequest ''Invalid Key'', emit (TokenGetByKey (vfKey form)) w))
   \<and> (\<forall>t. tokenGetByKey sv (store w) (vfKey form) = Inr t \<and> \<not> tokenValid sv (store w) t \<longrightarrow>
       ValidateKeyResource_POST sv (Inr form) w =
         (BadRequest ''Invalid Key'', emit (TokenGetByKey (vfKey form)) w))
   \<and> (\<forall>t. tokenGetByKey sv (store w) (vfKey form) = Inr t \<and> tokenValid sv (store w) t \<longrightarrow>
       ValidateKeyResource_POST sv (Inr form) w =
         (OK (ValidKeyBody \<lparr>vkUserId = UserId t, vkKey = vfKey form\<rparr>),
          emit (TokenGetByKey (vfKey form)) w))
   \<and> code (BadRequest ''Invalid Key'') = 400"
  by (simp add: ValidateKeyResource_POST_def store_emit BadRequest_def)

theorem validate_key_result_witness:
  "tokenGetByKey mem_services (store world0) ''k2'' = Inl ''no rows in result set''
   \<and> fst (ValidateKeyResource_POST mem_services (Inr \<lparr>vfKey = ''k2''\<rparr>) world0)
       = \<lparr>code = 400, body = Text ''Invalid Key''\<rparr>
   \<and> tokenGetByKey mem_services (store world0\<lparr>now := 100\<rparr>) ''k1'' = Inr tok1
   \<and> \<not> tokenValid mem_services (store world0\<lparr>now := 100\<rparr>) tok1
   \<and> fst (ValidateKeyResource_POST mem_services (Inr \<lparr>vfKey = ''k1''\<rparr>)
            (world0\<lparr>store := store world0\<lparr>now := 100\<rparr>\<rparr>))
       = \<lparr>code = 400, body = Text ''Invalid Key''\<rparr>
   \<and> tokenGetByKey mem_services (store world0) ''k1'' = Inr tok1
   \<and> tokenValid mem_services (store world0) tok1
   \<and> fst (ValidateKeyResource_POST mem_services (Inr \<lparr>vfKey = ''k1''\<rparr>) world0)
       = \<lparr>code = 200, body = ValidKeyBody \<lparr>vkUserId = 1, vkKey = ''k1''\<rparr>\<rparr>"
proof -
  let ?late = "world0\<lparr>store := store world0\<lparr>now := 100\<rparr>\<rparr>"
  have m: "tokenGetByKey mem_services (store world0) (vfKey \<lparr>vfKey = ''k2''\<rparr>)
             = Inl ''no rows in result set''"
    by (simp add: mem_defs)
  have l: "tokenGetByKey mem_services (store ?late) (vfKey \<lparr>vfKey = ''k1''\<rparr>) = Inr tok1"
    by (simp add: mem_defs)
  have ln: "\<not> tokenValid mem_services (store ?late) tok1"
    by (simp add: mem_defs)
  have v: "tokenGetByKey mem_services (store world0) (vfKey \<lparr>vfKey = ''k1''\<rparr>) = Inr tok1"
    by (simp add: mem_defs)
  have vv: "tokenValid mem_services (store world0) tok1"
    by (simp add: mem_defs)
  have u: "UserId tok1 = 1"
    by (simp add: tok1_def)
  show ?thesis
    using m l ln v vv u
      validate_key_result [of mem_services world0 "\<lparr>vfKey = ''k2''\<rparr>"]
      validate_key_result [of mem_services ?late "\<lparr>vfKey = ''k1''\<rparr>"]
      validate_key_result [of mem_services world0 "\<lparr>vfKey = ''k1''\<rparr>"]
    by (simp add: response_defs)
qed

text \<open>
  Claim C8. Once the passwords match, the complete step rejects a key with 400
  \<open>Invalid Key\<close> exactly when the validate step, run on the same key in the same world,
  rejects it with 400 \<open>Invalid Key\<close>; and the validate step either rejects the key in this
  way or accepts it with status 200.
\<close>

theorem complete_revalidates_as_validate:
  assumes "cpPassword form = cpPasswordAgain form"
  shows "((fst (CompleteResource_POST sv (Inr form) w) = BadRequest ''Invalid Key'')
          = (fst (ValidateKeyResource_POST sv (Inr \<lparr>vfKey = vkKey (cpValidKey form)\<rparr>) w)
               = BadRequest ''Invalid Key''))
       \<and> (fst (ValidateKeyResource_POST sv (Inr \<lparr>vfKey = vkKey (cpValidKey form)\<rparr>) w)
             = BadRequest ''Invalid Key''
          \<or> code (fst (ValidateKeyResource_POST sv
                          (Inr \<lparr>vfKey = vkKey (cpValidKey form)\<rparr>) w)) = 200)"
  using assms
  by (auto simp: CompleteResource_POST_def ValidateKeyResource_POST_def store_emit Let_def
        response_defs split: sum.splits option.splits prod.splits)

theorem complete_revalidates_as_validate_witness:
  "fst (CompleteResource_POST mem_services
          (Inr \<lparr>cpPassword = ''a'', cpPasswordAgain = ''a'',
                cpValidKey = \<lparr>vkUserId = 1, vkKey = ''k2''\<rparr>\<rparr>) world0)
     = BadRequest ''Invalid Key''
   \<and> fst (ValidateKeyResource_POST mem_services (Inr \<lparr>vfKey = ''k2''\<rparr>) world0)
     = BadRequest ''Invalid Key''"
proof -
  let ?form = "\<lparr>cpPassword = ''a'', cpPasswordAgain = ''a'',
                cpValidKey = \<lparr>vkUserId = 1, vkKey = ''k2''\<rparr>\<rparr>"
  have h: "cpPassword ?form = cpPasswordAgain ?form"
    by simp
  have v: "fst (ValidateKeyResource_POST mem_services (Inr \<lparr>vfKey = ''k2''\<rparr>) world0)
             = BadRequest ''Invalid Key''"
    by (simp add: ValidateKeyResource_POST_def mem_defs emit_def)
  show ?thesis
    using v complete_revalidates_as_validate [OF h, of mem_services world0] by simp
qed

text \<open>
  Claim C5. Whenever the complete step calls the token store's update, the user update
  has been called immediately before it and returned no error; the response is then 200
  with the updated user whether or not the token update fails, and a failure of the token
  update is logged as \<open>Unable to invalidate token\<close>.
\<close>

theorem complete_invalidates_after_user_update:
  assumes "CompleteResource_POST sv decoded w = (r, w')"
    and "TokenUpdate tok \<in> set (drop (length (trace w)) (trace w'))"
  shows "\<exists>form user s1.
     decoded = Inr form \<and>
     userUpdate sv (store w) user = (None, s1) \<and>
     r = OK (UserBody user) \<and>
     drop (length (trace w)) (trace w') =
       [TokenGetByKey (vkKey (cpValidKey form)), UserGetById (UserId tok), PasswordEncode,
        UserUpdate user, TokenUpdate tok]
       @ (case fst (tokenUpdate sv s1 tok) of
            None \<Rightarrow> []
          | Some err \<Rightarrow> [LogErrorf (''Unable to invalidate token: '' @ err)])"
proof -
  from assms obtain form where d: "decoded = Inr form"
    by (cases decoded) (auto simp: CompleteResource_POST_def)
  let ?k = "vkKey (cpValidKey form)"
  from assms d have pw: "cpPassword form = cpPasswordAgain form"
    by (auto simp: CompleteResource_POST_def split: if_splits)
  from assms d pw obtain t
    where t: "tokenGetByKey sv (store w) ?k = Inr t" "tokenValid sv (store w) t"
    by (cases "tokenGetByKey sv (store w) ?k")
       (auto simp: CompleteResource_POST_def emit_def Let_def split: if_splits)
  from assms d pw t obtain u0 where u0: "userGetById sv (store w) (UserId t) = Inr u0"
    by (cases "userGetById sv (store w) (UserId t)")
       (auto simp: CompleteResource_POST_def emit_def Let_def)
  from assms d pw t u0 obtain enc where enc: "passwordEncode sv (cpPassword form) = Inr enc"
    by (cases "passwordEncode sv (cpPassword form)")
       (auto simp: CompleteResource_POST_def emit_def Let_def)
  let ?u = "u0\<lparr>Password := enc\<rparr>"
  obtain uerr s1 where uu: "userUpdate sv (store w) ?u = (uerr, s1)"
    by (cases "userUpdate sv (store w) ?u")
  from assms d pw t u0 enc uu have ue: "uerr = None"
    by (cases uerr) (auto simp: CompleteResource_POST_def emit_def Let_def)
  let ?tok = "t\<lparr>State := ResetTokenInactive\<rparr>"
  obtain terr s2 where tu: "tokenUpdate sv s1 ?tok = (terr, s2)"
    by (cases "tokenUpdate sv s1 ?tok")
  from assms d pw t u0 enc uu ue tu have tok: "tok = ?tok"
    by (cases terr) (auto simp: CompleteResource_POST_def emit_def Let_def)
  from assms(1) d pw t u0 enc uu ue tu have r: "r = OK (UserBody ?u)"
    by (cases terr) (auto simp: CompleteResource_POST_def emit_def Let_def)
  from assms(1) d pw t u0 enc uu ue tu
  have tr: "drop (length (trace w)) (trace w') =
       [TokenGetByKey ?k, UserGetById (UserId t), PasswordEncode, UserUpdate ?u,
        TokenUpdate ?tok]
       @ (case terr of
            None \<Rightarrow> []
          | Some err \<Rightarrow> [LogErrorf (''Unable to invalidate token: '' @ err)])"
    by (cases terr) (auto simp: CompleteResource_POST_def emit_def Let_def)
  show ?thesis
    using d uu ue r tr tok tu by auto
qed

theorem complete_invalidates_after_user_update_witness:
  "CompleteResource_POST mem_services
     (Inr \<lparr>cpPassword = ''a'', cpPasswordAgain = ''a'',
           cpValidKey = \<lparr>vkUserId = 1, vkKey = ''k1''\<rparr>\<rparr>) world_failing
     = (\<lparr>code = 200, body = UserBody (alice\<lparr>Password := ''hash:a''\<rparr>)\<rparr>,
        \<lparr>store = (store world_failing)\<lparr>users := [alice\<lparr>Password := ''hash:a''\<rparr>]\<rparr>,
         trace = [TokenGetByKey ''k1'', UserGetById 1, PasswordEncode,
                  UserUpdate (alice\<lparr>Password := ''hash:a''\<rparr>),
                  TokenUpdate (tok1\<lparr>State := ResetTokenInactive\<rparr>),
                  LogErrorf ''Unable to invalidate token: connection refused'']\<rparr>)
   \<and> tokenUpdate mem_services
        ((store world_failing)\<lparr>users := [alice\<lparr>Password := ''hash:a''\<rparr>]\<rparr>)
        (tok1\<lparr>State := ResetTokenInactive\<rparr>)
      = (Some ''connection refused'',
         (store world_failing)\<lparr>users := [alice\<lparr>Password := ''hash:a''\<rparr>]\<rparr>)"
proof -
  let ?form = "\<lparr>cpPassword = ''a'', cpPasswordAgain = ''a'',
                cpValidKey = \<lparr>vkUserId = 1, vkKey = ''k1''\<rparr>\<rparr>"
  let ?u = "alice\<lparr>Password := ''hash:a''\<rparr>"
  let ?t = "tok1\<lparr>State := ResetTokenInactive\<rparr>"
  let ?s = "(store world_failing)\<lparr>users := [?u]\<rparr>"
  let ?w = "\<lparr>store = ?s,
             trace = [TokenGetByKey ''k1'', UserGetById 1, PasswordEncode, UserUpdate ?u,
                      TokenUpdate ?t,
                      LogErrorf ''Unable to invalidate token: connection refused'']\<rparr>"
  have run: "CompleteResource_POST mem_services (Inr ?form) world_failing
               = (\<lparr>code = 200, body = UserBody ?u\<rparr>, ?w)"
    by (simp add: CompleteResource_POST_def mem_defs emit_def response_defs Let_def)
  have called: "TokenUpdate ?t \<in> set (drop (length (trace world_failing)) (trace ?w))"
    by (simp add: world_failing_def)
  have fails: "tokenUpdate mem_services ?s ?t = (Some ''connection refused'', ?s)"
    by (simp add: mem_defs)
  from complete_invalidates_after_user_update [OF run called]
  obtain user s1 where "userUpdate mem_services (store world_failing) user = (None, s1)"
    and "\<lparr>code = 200, body = UserBody ?u\<rparr> = OK (UserBody user)"
    by blast
  with run fails show ?thesis
    by simp
qed


section \<open>Properties of start-up and dispatch\<close>



lemma newContextHandler_not_allowed:
  "\<not> IsAllowed (Handlers ep) req \<Longrightarrow>
     newContextHandler lib vk ep req st =
       st\<lparr>steps := steps st @ [MethodCheck],
          rw := rw st @ [(405, ''Method not allowed'')]\<rparr>"
  by (simp add: newContextHandler_def mark_def http_Error_def StatusMethodNotAllowed_def)


lemma Configure_returns_nil: "fst (Configure lib g privKey pubKey pathPrefix vars) = None"
  by (simp add: Configure_def New_def split: prod.splits)

lemmas lib_defs =
  lib_strict_def lib_open_def readFile0_def parse0_def Get_def whoami_def
  protected_ep_def public_ep_def get_anonymous_def delete_anonymous_def serving0_def
  globals0_def

text \<open>
  Claim C2, at a failing input. With a private key file that cannot be read,
  \<open>LoadSecureKeys\<close> returns \<open>Error reading private key\<close>, and with a public key file that
  cannot be read it returns \<open>Error reading public key\<close>; in both cases \<open>Configure\<close> returns
  no error and hands back a server with the endpoints registered.
\<close>

theorem configure_drops_key_error:
  "fst (LoadSecureKeys lib_strict ''missing.pem'' ''pub.pem'' globals0)
     = Some ''Error reading private key''
   \<and> fst (Configure lib_strict globals0 ''missing.pem'' ''pub.pem'' ''/api'' ()) = None
   \<and> snd (snd (Configure lib_strict globals0 ''missing.pem'' ''pub.pem'' ''/api'' ())) \<noteq> None
   \<and> fst (LoadSecureKeys lib_strict ''priv.pem'' ''missing.pem'' globals0)
     = Some ''Error reading public key''
   \<and> fst (Configure lib_strict globals0 ''priv.pem'' ''missing.pem'' ''/api'' ()) = None
   \<and> snd (snd (Configure lib_strict globals0 ''priv.pem'' ''missing.pem'' ''/api'' ())) \<noteq> None"
  by (simp add: Configure_def LoadSecureKeys_def New_def lib_strict_def readFile0_def)

text \<open>
  Claim C3, as amended. A request whose method is not in the endpoint's handler map is
  answered 405 \<open>Method not allowed\<close> by \<open>newContextHandler\<close> before the credential parse,
  the locale update or any handler. For a public endpoint this is all that dispatch does.
  For a protected endpoint the middleware of the chain runs before the method check: if
  it passes the request on, the answer is the 405; if it answers itself, the method check
  is not reached.
\<close>

theorem method_check_in_dispatch:
  assumes "\<not> IsAllowed (Handlers ep) req"
  shows "(Public ep \<longrightarrow>
            ServeRoute lib vk (route_of ep) req st =
              st\<lparr>steps := steps st @ [MethodCheck],
                 rw := rw st @ [(405, ''Method not allowed'')]\<rparr>)
       \<and> (\<not> Public ep \<and> HandlerWithNext lib vk req = None \<longrightarrow>
            ServeRoute lib vk (route_of ep) req st =
              st\<lparr>steps := steps st @ [Middleware_HandlerWithNext, MethodCheck],
                 rw := rw st @ [(405, ''Method not allowed'')]\<rparr>)
       \<and> (\<forall>r. \<not> Public ep \<and> HandlerWithNext lib vk req = Some r \<longrightarrow>
            ServeRoute lib vk (route_of ep) req st =
              st\<lparr>steps := steps st @ [Middleware_HandlerWithNext], rw := rw st @ [r]\<rparr>)"
  using assms
  by (simp add: ServeRoute_def route_of_def newContextHandler_not_allowed mark_def)

theorem method_check_in_dispatch_witness:
  "\<not> IsAllowed (Handlers public_ep) delete_anonymous
   \<and> Public public_ep
   \<and> ServeRoute lib_strict [] (route_of public_ep) delete_anonymous serving0 =
       serving0\<lparr>steps := [MethodCheck], rw := [(405, ''Method not allowed'')]\<rparr>
   \<and> \<not> IsAllowed (Handlers protected_ep) delete_anonymous
   \<and> \<not> Public protected_ep
   \<and> HandlerWithNext lib_open [] delete_anonymous = None
   \<and> ServeRoute lib_open [] (route_of protected_ep) delete_anonymous serving0 =
       serving0\<lparr>steps := [Middleware_HandlerWithNext, MethodCheck],
                rw := [(405, ''Method not allowed'')]\<rparr>
   \<and> HandlerWithNext lib_strict [] delete_anonymous
       = Some (401, ''Required authorization token not found'')
   \<and> ServeRoute lib_strict [] (route_of protected_ep) delete_anonymous serving0 =
       serving0\<lparr>steps := [Middleware_HandlerWithNext],
                rw := [(401, ''Required authorization token not found'')]\<rparr>"
proof -
  have a: "\<not> IsAllowed (Handlers public_ep) delete_anonymous"
    by (simp add: lib_defs)
  have b: "\<not> IsAllowed (Handlers protected_ep) delete_anonymous"
    by (simp add: lib_defs)
  have p: "Public public_ep" "\<not> Public protected_ep"
    by (simp_all add: lib_defs)
  have m: "HandlerWithNext lib_open [] delete_anonymous = None"
    "HandlerWithNext lib_strict [] delete_anonymous
       = Some (401, ''Required authorization token not found'')"
    by (simp_all add: lib_defs)
  have s: "steps serving0 = []" "rw serving0 = []"
    by (simp_all add: serving0_def)
  show ?thesis
    using a b p m s
      method_check_in_dispatch [OF a, of lib_strict "[]" serving0]
      method_check_in_dispatch [OF b, of lib_open "[]" serving0]
      method_check_in_dispatch [OF b, of lib_strict "[]" serving0]
    by simp
qed

text \<open>
  Claim C3, as stated, fails on a protected endpoint: for a \<open>DELETE\<close> request without a
  credential to an endpoint that handles \<open>GET\<close> only, the middleware is the first step
  taken, whatever it decides. Under \<open>lib_strict\<close> the answer is its 401 and the method
  check is never made; under \<open>lib_open\<close> the method check comes second.
\<close>

theorem method_check_not_first_when_protected:
  "\<not> Public protected_ep
   \<and> \<not> IsAllowed (Handlers protected_ep) delete_anonymous
   \<and> steps (ServeRoute lib_strict [] (route_of protected_ep) delete_anonymous serving0)
       = [Middleware_HandlerWithNext]
   \<and> rw (ServeRoute lib_strict [] (route_of protected_ep) delete_anonymous serving0)
       = [(401, ''Required authorization token not found'')]
   \<and> steps (ServeRoute lib_open [] (route_of protected_ep) delete_anonymous serving0)
       = [Middleware_HandlerWithNext, MethodCheck]"
  by (simp add: ServeRoute_def route_of_def newContextHandler_def mark_def http_Error_def
        lib_defs)




end
